theory Spec2Isabelle
  imports Complex_Main "HOL-Library.Char_ord" "HOL-Library.List_Lexorder"
begin

section \<open>Values of a float64 column\<close>

text \<open>
  The derived columns of \<^verbatim>\<open>app.py\<close> are pandas float64 series. A cell is a finite
  number, one of the two infinities, or NaN. In the columns of the frames a finite cell
  carries a real number, and the rounding of the column arithmetic is not modelled.
  The operations below are the ones the source applies to such cells, with the
  IEEE-754 results pandas gives at the special values. The rates of the scorecard are
  Python floats computed from two integers; they are modelled with their rounding
  (\<open>round64\<close> below).
\<close>

datatype float64 = Fin real | PInf | NInf | NaN

text \<open>
  \<^verbatim>\<open>a / b\<close> on two numeric series whose cells are finite. pandas does not raise on a
  zero denominator: \<^verbatim>\<open>0 / 0\<close> is NaN and \<^verbatim>\<open>x / 0\<close> is the infinity with the sign of
  \<^verbatim>\<open>x\<close>.
\<close>

definition true_divide :: "real \<Rightarrow> real \<Rightarrow> float64" where
  "true_divide x y =
     (if y \<noteq> 0 then Fin (x / y)
      else if x = 0 then NaN
      else if 0 < x then PInf else NInf)"

text \<open>\<^verbatim>\<open>s * c\<close> for a finite constant \<^verbatim>\<open>c\<close> (the source multiplies by 100).\<close>

fun fscale :: "float64 \<Rightarrow> real \<Rightarrow> float64" where
  "fscale (Fin x) c = Fin (x * c)"
| "fscale PInf c = (if 0 < c then PInf else if c < 0 then NInf else NaN)"
| "fscale NInf c = (if 0 < c then NInf else if c < 0 then PInf else NaN)"
| "fscale NaN c = NaN"

text \<open>\<^verbatim>\<open>s.fillna(v)\<close>: only NaN cells are replaced; an infinite cell stays.\<close>

fun fillna :: "real \<Rightarrow> float64 \<Rightarrow> float64" where
  "fillna v NaN = Fin v"
| "fillna v x = x"

text \<open>\<^verbatim>\<open>a - b\<close> on two float64 cells.\<close>

fun fsub :: "float64 \<Rightarrow> float64 \<Rightarrow> float64" where
  "fsub (Fin x) (Fin y) = Fin (x - y)"
| "fsub NaN b = NaN"
| "fsub a NaN = NaN"
| "fsub PInf PInf = NaN"
| "fsub NInf NInf = NaN"
| "fsub PInf b = PInf"
| "fsub NInf b = NInf"
| "fsub (Fin x) PInf = NInf"
| "fsub (Fin x) NInf = PInf"

text \<open>Unary minus on a cell.\<close>

fun fneg :: "float64 \<Rightarrow> float64" where
  "fneg (Fin x) = Fin (- x)"
| "fneg PInf = NInf"
| "fneg NInf = PInf"
| "fneg NaN = NaN"

text \<open>\<^verbatim>\<open>s > c\<close> for a finite constant: every comparison with NaN is false.\<close>

fun fgt :: "float64 \<Rightarrow> real \<Rightarrow> bool" where
  "fgt (Fin x) c = (c < x)"
| "fgt PInf c = True"
| "fgt NInf c = False"
| "fgt NaN c = False"

fun is_finite :: "float64 \<Rightarrow> bool" where
  "is_finite (Fin x) = True"
| "is_finite x = False"

text \<open>
  The arithmetic mean of a series of finite cells that is known to be non-empty: the
  source takes it of a group of a \<^verbatim>\<open>groupby\<close> (never empty) or behind
  \<^verbatim>\<open>if not df.empty\<close>.
\<close>

definition mean_real :: "real list \<Rightarrow> real" where
  "mean_real xs = sum_list xs / real (length xs)"

text \<open>\<^verbatim>\<open>s.mean()\<close> of any series of finite cells: NaN on the empty series.\<close>

definition series_mean :: "real list \<Rightarrow> float64" where
  "series_mean xs = (if xs = [] then NaN else Fin (mean_real xs))"

section \<open>Python floats with rounding\<close>

text \<open>
  A finite Python float is a binary64 number; it is modelled by the real number it
  denotes. Every arithmetic operation returns the exact result rounded to the nearest
  binary64 number, ties going to the even significand.

  \<open>rne\<close> rounds a real to the nearest integer, ties to even. \<open>binade n x\<close> is the
  exponent \<open>k\<close> with \<open>2^k \<le> x < 2^(k+1)\<close> of a positive \<open>x\<close>, found in at most \<open>n\<close>
  doublings or halvings. \<open>round64\<close> rounds to 53 significant bits: to a multiple of
  \<open>2^(k-52)\<close>. The 1100 steps cover the normal range of binary64 (magnitudes from
  \<open>2^-1022\<close> up to \<open>2^1024\<close>); overflow and subnormal results are outside the model and
  out of reach of a rate, which lies between 0 and 100.
\<close>

definition rne :: "real \<Rightarrow> int" where
  "rne x =
     (let f = \<lfloor>x\<rfloor>; d = x - of_int f
      in if d < 1 / 2 then f
         else if 1 / 2 < d then f + 1
         else if even f then f else f + 1)"

fun binade :: "nat \<Rightarrow> real \<Rightarrow> int" where
  "binade 0 x = 0"
| "binade (Suc n) x =
     (if x < 1 then binade n (x * 2) - 1
      else if 2 \<le> x then binade n (x / 2) + 1
      else 0)"

definition round64 :: "real \<Rightarrow> real" where
  "round64 x =
     (if x = 0 then 0
      else let e = binade 1100 \<bar>x\<bar> - 52
           in of_int (rne (x / 2 powi e)) * 2 powi e)"

text \<open>\<^verbatim>\<open>x + y\<close> on two finite Python floats.\<close>

definition float_add :: "real \<Rightarrow> real \<Rightarrow> real" where
  "float_add x y = round64 (x + y)"

section \<open>The fact tables\<close>

text \<open>
  A row of the GSC table, as far as the computations read it, and a row of the
  Top\_Queries table, which adds the query text. Both frames reach the functions below
  already restricted to the selected domain (\<^verbatim>\<open>domain_gsc\<close>, \<^verbatim>\<open>df_queries_all\<close>).
  Clicks and impressions are Python integers; a position is a finite float.
\<close>

record phase_row =
  Phase_id :: int
  Clicks :: int
  Impressions :: int
  Position :: real

record query_row = phase_row +
  Top_Queries :: string

datatype py_error = KeyError

section \<open>Phase aggregator: \<^verbatim>\<open>calculate_phase_metrics\<close>\<close>

text \<open>The dictionary the function returns, one field per key.\<close>

record phase_metrics =
  m_Phase_id :: int
  m_Clicks :: int
  m_Impressions :: int
  m_Position :: float64
  m_CTR :: float64

definition calculate_phase_metrics :: "int \<Rightarrow> 'a phase_row_scheme list \<Rightarrow> phase_metrics" where
  "calculate_phase_metrics phase_id df =
     (let df_phase = filter (\<lambda>r. Phase_id r = phase_id) df;
          total_clicks = sum_list (map Clicks df_phase);
          total_impressions = sum_list (map Impressions df_phase);
          avg_position = series_mean (map Position df_phase);
          avg_ctr = (if 0 < total_impressions
                     then fscale (true_divide (real_of_int total_clicks)
                                              (real_of_int total_impressions)) 100
                     else Fin 0)
      in \<lparr> m_Phase_id = phase_id, m_Clicks = total_clicks,
           m_Impressions = total_impressions, m_Position = avg_position,
           m_CTR = avg_ctr \<rparr>)"

section \<open>Query delta builder\<close>

text \<open>
  \<^verbatim>\<open>aggregate_queries\<close>: the rows of one phase, grouped by query text. A
  \<^verbatim>\<open>groupby\<close> yields one row per distinct key, in sorted key order, with the sums of
  clicks and impressions and the unweighted mean of the positions of the group.
\<close>

record query_agg =
  agg_Top_Queries :: string
  agg_Clicks :: int
  agg_Impressions :: int
  agg_Position :: real

definition aggregate_queries :: "int \<Rightarrow> query_row list \<Rightarrow> query_agg list" where
  "aggregate_queries phase_id df_q =
     (let df_phase = filter (\<lambda>r. Phase_id r = phase_id) df_q
      in map (\<lambda>k. let g = filter (\<lambda>r. Top_Queries r = k) df_phase
                  in \<lparr> agg_Top_Queries = k,
                       agg_Clicks = sum_list (map Clicks g),
                       agg_Impressions = sum_list (map Impressions g),
                       agg_Position = mean_real (map Position g) \<rparr>)
             (sort (remdups (map Top_Queries df_phase))))"

text \<open>
  \<^verbatim>\<open>pd.merge(a, b, on='Top_Queries', how='outer').fillna(0)\<close>: one row per key of
  either side, in sorted key order (the keys of each side are unique after the
  \<^verbatim>\<open>groupby\<close>); the cells of a side that lacks the key are missing and \<^verbatim>\<open>fillna(0)\<close>
  makes them 0. Side A is the left frame, side B the right one; \<open>Query\<close> is the
  \<^verbatim>\<open>Top_Queries\<close> column of the merged frame.
\<close>

record merged_row =
  Query :: string
  Clicks_A :: int
  Impressions_A :: int
  Position_A :: real
  Clicks_B :: int
  Impressions_B :: int
  Position_B :: real

definition filled :: "string \<Rightarrow> query_agg list \<Rightarrow> query_agg" where
  "filled k agg =
     (case find (\<lambda>g. agg_Top_Queries g = k) agg of
        Some g \<Rightarrow> g
      | None \<Rightarrow> \<lparr> agg_Top_Queries = k, agg_Clicks = 0, agg_Impressions = 0,
                  agg_Position = 0 \<rparr>)"

definition merge_outer_fillna :: "query_agg list \<Rightarrow> query_agg list \<Rightarrow> merged_row list" where
  "merge_outer_fillna left right =
     map (\<lambda>k. \<lparr> Query = k,
                Clicks_A = agg_Clicks (filled k left),
                Impressions_A = agg_Impressions (filled k left),
                Position_A = agg_Position (filled k left),
                Clicks_B = agg_Clicks (filled k right),
                Impressions_B = agg_Impressions (filled k right),
                Position_B = agg_Position (filled k right) \<rparr>)
         (sort (remdups (map agg_Top_Queries left @ map agg_Top_Queries right)))"

text \<open>
  The position delta. \<^verbatim>\<open>Series.replace(0, MAX_RANK)\<close> substitutes the cells equal to 0
  and leaves every other cell as it is.
\<close>

definition MAX_RANK :: real where
  "MAX_RANK = 100"

definition replace0 :: "real \<Rightarrow> real \<Rightarrow> real" where
  "replace0 v x = (if x = 0 then v else x)"

definition pos_delta :: "'a merged_row_scheme \<Rightarrow> real" where
  "pos_delta r =
     (let pos_a_calc = replace0 MAX_RANK (Position_A r);
          pos_b_calc = replace0 MAX_RANK (Position_B r)
      in pos_b_calc - pos_a_calc)"

text \<open>
  The click-through rate of one side:
  \<^verbatim>\<open>(Clicks / Impressions * 100).fillna(0)\<close>.
\<close>

definition ctr :: "int \<Rightarrow> int \<Rightarrow> float64" where
  "ctr clicks impressions =
     fillna 0 (fscale (true_divide (real_of_int clicks) (real_of_int impressions)) 100)"

text \<open>
  The rows of the three comparison frames. \<^verbatim>\<open>tier_merged\<close> adds \<^verbatim>\<open>Pos_Delta\<close>;
  \<^verbatim>\<open>st_merged\<close> adds \<^verbatim>\<open>Pos_Delta\<close>, \<^verbatim>\<open>Imp_Delta\<close> and the CTR columns (its helper columns
  \<^verbatim>\<open>Pos_A_Calc\<close> and \<^verbatim>\<open>Pos_B_Calc\<close> are the two bound values of \<open>pos_delta\<close>);
  \<^verbatim>\<open>df_merged\<close> has all of these and \<^verbatim>\<open>Click_Delta\<close>.
\<close>

record tier_row = merged_row +
  Pos_Delta :: real

record st_row = tier_row +
  Imp_Delta :: int
  CTR_A :: float64
  CTR_B :: float64
  CTR_Delta :: float64

record delta_row = st_row +
  Click_Delta :: int

definition with_pos_delta :: "merged_row \<Rightarrow> tier_row" where
  "with_pos_delta m =
     \<lparr> Query = Query m,
       Clicks_A = Clicks_A m, Impressions_A = Impressions_A m, Position_A = Position_A m,
       Clicks_B = Clicks_B m, Impressions_B = Impressions_B m, Position_B = Position_B m,
       Pos_Delta = pos_delta m \<rparr>"

definition with_st_columns :: "merged_row \<Rightarrow> st_row" where
  "with_st_columns m =
     \<lparr> Query = Query m,
       Clicks_A = Clicks_A m, Impressions_A = Impressions_A m, Position_A = Position_A m,
       Clicks_B = Clicks_B m, Impressions_B = Impressions_B m, Position_B = Position_B m,
       Pos_Delta = pos_delta m,
       Imp_Delta = Impressions_B m - Impressions_A m,
       CTR_A = ctr (Clicks_A m) (Impressions_A m),
       CTR_B = ctr (Clicks_B m) (Impressions_B m),
       CTR_Delta = fsub (ctr (Clicks_B m) (Impressions_B m))
                        (ctr (Clicks_A m) (Impressions_A m)) \<rparr>"

definition with_deltas :: "merged_row \<Rightarrow> delta_row" where
  "with_deltas m =
     \<lparr> Query = Query m,
       Clicks_A = Clicks_A m, Impressions_A = Impressions_A m, Position_A = Position_A m,
       Clicks_B = Clicks_B m, Impressions_B = Impressions_B m, Position_B = Position_B m,
       Pos_Delta = pos_delta m,
       Imp_Delta = Impressions_B m - Impressions_A m,
       CTR_A = ctr (Clicks_A m) (Impressions_A m),
       CTR_B = ctr (Clicks_B m) (Impressions_B m),
       CTR_Delta = fsub (ctr (Clicks_B m) (Impressions_B m))
                        (ctr (Clicks_A m) (Impressions_A m)),
       Click_Delta = Clicks_B m - Clicks_A m \<rparr>"

text \<open>
  \<^verbatim>\<open>df_merged\<close> of the phase comparison tab. \<^verbatim>\<open>aggregate_queries\<close> names the
  aggregate columns after the phase (\<^verbatim>\<open>Clicks_{phase_id}\<close>), so with the same phase on
  both sides the merge suffixes the clashing names and the first column access
  \<^verbatim>\<open>df_merged[f'Clicks_{phase_b}']\<close> raises \<^verbatim>\<open>KeyError\<close>.
\<close>

definition df_merged :: "int \<Rightarrow> int \<Rightarrow> query_row list \<Rightarrow> py_error + delta_row list" where
  "df_merged phase_a phase_b df_queries_all =
     (if phase_a = phase_b then Inl KeyError
      else Inr (map with_deltas
                  (merge_outer_fillna (aggregate_queries phase_a df_queries_all)
                                      (aggregate_queries phase_b df_queries_all))))"

section \<open>Tier classifier\<close>

text \<open>
  \<^verbatim>\<open>tier_merged\<close> is built like \<^verbatim>\<open>df_merged\<close>, from \<^verbatim>\<open>aggregate_queries\<close>, and so
  raises \<^verbatim>\<open>KeyError\<close> on its first column access when both phases are the same.
  \<^verbatim>\<open>tier_analysis_df\<close> keeps the rows with a positive position on either side and
  computes \<^verbatim>\<open>Pos_Delta\<close> once more on the rows it kept.
\<close>

definition tier_merged :: "int \<Rightarrow> int \<Rightarrow> query_row list \<Rightarrow> py_error + tier_row list" where
  "tier_merged tier_phase_a tier_phase_b df_queries_all =
     (if tier_phase_a = tier_phase_b then Inl KeyError
      else Inr (map with_pos_delta
                  (merge_outer_fillna (aggregate_queries tier_phase_a df_queries_all)
                                      (aggregate_queries tier_phase_b df_queries_all))))"

definition tier_filter :: "'a merged_row_scheme \<Rightarrow> bool" where
  "tier_filter r = (0 < Position_A r \<or> 0 < Position_B r)"

definition tier_analysis_df :: "tier_row list \<Rightarrow> tier_row list" where
  "tier_analysis_df merged =
     map (\<lambda>r. r\<lparr> Pos_Delta := pos_delta r \<rparr>) (filter tier_filter merged)"

definition categorize_tier_enhanced :: "'a tier_row_scheme \<Rightarrow> string" where
  "categorize_tier_enhanced row =
     (let pos_a = Position_A row;
          pos_b = Position_B row;
          delta = Pos_Delta row
      in if pos_a = 0 \<and> 0 < pos_b then ''Tier S (New Rank)''
         else if 0 < pos_b \<and> pos_b \<le> 3 \<and> 3 < pos_a then ''Tier S++ (Top 3 Win)''
         else if delta \<le> - 10 then ''Tier S+ (Jump 10+)''
         else if 0 < pos_b \<and> pos_b \<le> 10 \<and> delta \<le> - 3 then ''Tier A (Top 10 Solid)''
         else if delta < 0 then ''Tier B (General Jump)''
         else if 10 \<le> delta then ''Decliner S (Crash/Lost)''
         else if pos_a \<le> 10 \<and> 3 \<le> delta then ''Decliner A (Top 10 Drop)''
         else if 0 < delta then ''Decliner B (General Drop)''
         else ''No Change'')"

text \<open>The \<^verbatim>\<open>Tier_Class\<close> column: the classifier applied to every row.\<close>

definition Tier_Class :: "tier_row list \<Rightarrow> string list" where
  "Tier_Class df = map categorize_tier_enhanced df"

section \<open>Strategy scorecard\<close>

text \<open>
  \<^verbatim>\<open>st_merged\<close> groups the rows of each phase itself and merges with the suffixes
  \<^verbatim>\<open>_A\<close> and \<^verbatim>\<open>_B\<close>, so it does not depend on the two phases being different.
  \<^verbatim>\<open>st_analysis_df\<close> keeps the rows with impressions on either side.
\<close>

definition st_merged :: "int \<Rightarrow> int \<Rightarrow> query_row list \<Rightarrow> st_row list" where
  "st_merged st_phase_a st_phase_b df_queries_all =
     map with_st_columns
       (merge_outer_fillna (aggregate_queries st_phase_a df_queries_all)
                           (aggregate_queries st_phase_b df_queries_all))"

definition st_filter :: "'a merged_row_scheme \<Rightarrow> bool" where
  "st_filter r = (0 < Impressions_A r \<or> 0 < Impressions_B r)"

definition st_analysis_df :: "st_row list \<Rightarrow> st_row list" where
  "st_analysis_df merged = filter st_filter merged"

text \<open>The masks of the three criteria and the frames they select.\<close>

definition is_true_win :: "'a st_row_scheme \<Rightarrow> bool" where
  "is_true_win r = (Pos_Delta r < 0 \<and> 0 < Imp_Delta r)"

definition is_risk :: "'a st_row_scheme \<Rightarrow> bool" where
  "is_risk r = (fgt (CTR_Delta r) 3 \<and> 0 < Pos_Delta r)"

definition is_ineffective :: "'a st_row_scheme \<Rightarrow> bool" where
  "is_ineffective r = (fgt (CTR_Delta r) 3 \<and> Pos_Delta r = 0)"

definition true_wins_df :: "st_row list \<Rightarrow> st_row list" where
  "true_wins_df df = filter is_true_win df"

definition risky_df :: "st_row list \<Rightarrow> st_row list" where
  "risky_df df = filter is_risk df"

definition ineffective_df :: "st_row list \<Rightarrow> st_row list" where
  "ineffective_df df = filter is_ineffective df"

text \<open>
  \<^verbatim>\<open>(count / total_queries) * 100\<close> on two Python integers: the true division gives
  the float nearest to the quotient, and the product with 100 is rounded again. The
  source only evaluates it behind the \<^verbatim>\<open>total_queries == 0\<close> stop.
\<close>

definition pct :: "nat \<Rightarrow> nat \<Rightarrow> real" where
  "pct count total_queries = round64 (round64 (real count / real total_queries) * 100)"

text \<open>The magnitude figures and the crash flag.\<close>

definition avg_win_depth :: "st_row list \<Rightarrow> real" where
  "avg_win_depth df =
     (if true_wins_df df \<noteq> [] then \<bar>mean_real (map Pos_Delta (true_wins_df df))\<bar> else 0)"

definition avg_loss_depth :: "st_row list \<Rightarrow> real" where
  "avg_loss_depth df =
     (if risky_df df \<noteq> [] then mean_real (map Pos_Delta (risky_df df)) else 0)"

definition total_ranks_gained :: "st_row list \<Rightarrow> real" where
  "total_ranks_gained df =
     (if true_wins_df df \<noteq> [] then \<bar>sum_list (map Pos_Delta (true_wins_df df))\<bar> else 0)"

definition total_ranks_lost :: "st_row list \<Rightarrow> real" where
  "total_ranks_lost df =
     (if risky_df df \<noteq> [] then sum_list (map Pos_Delta (risky_df df)) else 0)"

definition is_crash :: "st_row list \<Rightarrow> bool" where
  "is_crash df = (avg_win_depth df * 1.5 < avg_loss_depth df)"

text \<open>
  The figures of the scorecard, computed from \<^verbatim>\<open>st_analysis_df\<close>. With no row left
  the script shows a warning and stops (\<^verbatim>\<open>st.stop()\<close>) before any rate is computed:
  the result is \<open>None\<close>.
\<close>

record scorecard =
  total_queries :: nat
  count_wins :: nat
  pct_wins :: real
  count_risk :: nat
  pct_risk :: real
  count_ineffective :: nat
  pct_ineffective :: real
  sc_avg_win_depth :: real
  sc_avg_loss_depth :: real
  net_rank_change :: real
  sc_is_crash :: bool

definition strategy_scorecard :: "st_row list \<Rightarrow> scorecard option" where
  "strategy_scorecard df =
     (let n = length df
      in if n = 0 then None
         else Some \<lparr> total_queries = n,
                     count_wins = length (true_wins_df df),
                     pct_wins = pct (length (true_wins_df df)) n,
                     count_risk = length (risky_df df),
                     pct_risk = pct (length (risky_df df)) n,
                     count_ineffective = length (ineffective_df df),
                     pct_ineffective = pct (length (ineffective_df df)) n,
                     sc_avg_win_depth = avg_win_depth df,
                     sc_avg_loss_depth = avg_loss_depth df,
                     net_rank_change = total_ranks_gained df - total_ranks_lost df,
                     sc_is_crash = is_crash df \<rparr>)"

text \<open>The category of the scatter plot, and the \<^verbatim>\<open>Category\<close> column.\<close>

definition categorize_outcome :: "'a st_row_scheme \<Rightarrow> string" where
  "categorize_outcome row =
     (if Pos_Delta row < 0 \<and> 0 < Imp_Delta row then ''True Win''
      else if fgt (CTR_Delta row) 3 \<and> 0 < Pos_Delta row then ''Risk (Drop)''
      else if fgt (CTR_Delta row) 3 \<and> Pos_Delta row = 0 then ''Wasted''
      else ''Others'')"

definition Category :: "st_row list \<Rightarrow> string list" where
  "Category df = map categorize_outcome df"

section \<open>The rules as the specification words them\<close>

text \<open>
  The specification describes both classifiers as an ordered list of (predicate, label)
  pairs evaluated in sequence, the first match winning, with a label for the rows no
  predicate matches. \<open>spec_tier_cascade\<close> is the table of its section 4.3 and
  \<open>spec_outcome_cascade\<close> the priority list of its section 4.4, with the labels the source
  prints. They are compared with the source's functions below.
\<close>

fun first_match :: "(('r \<Rightarrow> bool) \<times> string) list \<Rightarrow> string \<Rightarrow> 'r \<Rightarrow> string" where
  "first_match [] dflt r = dflt"
| "first_match ((p, l) # ps) dflt r = (if p r then l else first_match ps dflt r)"

definition spec_tier_cascade :: "(('a tier_row_scheme \<Rightarrow> bool) \<times> string) list" where
  "spec_tier_cascade =
     [(\<lambda>r. Position_A r = 0 \<and> 0 < Position_B r, ''Tier S (New Rank)''),
      (\<lambda>r. 0 < Position_B r \<and> Position_B r \<le> 3 \<and> 3 < Position_A r,
         ''Tier S++ (Top 3 Win)''),
      (\<lambda>r. Pos_Delta r \<le> - 10, ''Tier S+ (Jump 10+)''),
      (\<lambda>r. 0 < Position_B r \<and> Position_B r \<le> 10 \<and> Pos_Delta r \<le> - 3,
         ''Tier A (Top 10 Solid)''),
      (\<lambda>r. Pos_Delta r < 0, ''Tier B (General Jump)''),
      (\<lambda>r. 10 \<le> Pos_Delta r, ''Decliner S (Crash/Lost)''),
      (\<lambda>r. Position_A r \<le> 10 \<and> 3 \<le> Pos_Delta r, ''Decliner A (Top 10 Drop)''),
      (\<lambda>r. 0 < Pos_Delta r, ''Decliner B (General Drop)'')]"

text \<open>The labels of the eight rows of the table, and the label of the else branch.\<close>

definition tier_labels :: "string list" where
  "tier_labels =
     map snd (spec_tier_cascade :: ((tier_row \<Rightarrow> bool) \<times> string) list) @ [''No Change'']"

definition spec_outcome_cascade :: "(('a st_row_scheme \<Rightarrow> bool) \<times> string) list" where
  "spec_outcome_cascade =
     [(\<lambda>r. Pos_Delta r < 0 \<and> 0 < Imp_Delta r, ''True Win''),
      (\<lambda>r. fgt (CTR_Delta r) 3 \<and> 0 < Pos_Delta r, ''Risk (Drop)''),
      (\<lambda>r. fgt (CTR_Delta r) 3 \<and> Pos_Delta r = 0, ''Wasted'')]"

text \<open>
  The magnitude figures as the specification words them: the average depth of the
  True Win rows is the mean of \<open>\<bar>Pos_Delta\<bar>\<close> over them, the average depth of the
  Risk rows is the mean of \<^verbatim>\<open>Pos_Delta\<close> over them, and each is 0 when its set of rows
  is empty.
\<close>

definition spec_avg_true_win_depth :: "st_row list \<Rightarrow> real" where
  "spec_avg_true_win_depth df =
     (if true_wins_df df = [] then 0
      else mean_real (map (\<lambda>r. \<bar>Pos_Delta r\<bar>) (true_wins_df df)))"

definition spec_avg_risk_depth :: "st_row list \<Rightarrow> real" where
  "spec_avg_risk_depth df =
     (if risky_df df = [] then 0 else mean_real (map Pos_Delta (risky_df df)))"

text \<open>
  The position delta rule as the specification words it: a position that is not
  positive is replaced by the sentinel 100, and the adjusted position of phase A is
  subtracted from the adjusted position of phase B.
\<close>

definition spec_sentinel_position :: "real \<Rightarrow> real" where
  "spec_sentinel_position p = (if 0 < p then p else 100)"

definition spec_Pos_Delta :: "real \<Rightarrow> real \<Rightarrow> real" where
  "spec_Pos_Delta posA posB = spec_sentinel_position posB - spec_sentinel_position posA"

text \<open>
  The row the specification expects when the two phases are swapped: the same query,
  the aggregates and the CTR of the two sides exchanged, and each of the four deltas
  negated.
\<close>

definition spec_swap_sides :: "delta_row \<Rightarrow> delta_row" where
  "spec_swap_sides r =
     \<lparr> Query = Query r,
       Clicks_A = Clicks_B r, Impressions_A = Impressions_B r, Position_A = Position_B r,
       Clicks_B = Clicks_A r, Impressions_B = Impressions_A r, Position_B = Position_A r,
       Pos_Delta = - Pos_Delta r,
       Imp_Delta = - Imp_Delta r,
       CTR_A = CTR_B r,
       CTR_B = CTR_A r,
       CTR_Delta = fneg (CTR_Delta r),
       Click_Delta = - Click_Delta r \<rparr>"

section \<open>Example tables\<close>

text \<open>
  A query that is absent from phase 1 and ranks at position 5 in phase 2 (the sentinel
  scenario of the specification).
\<close>

definition new_rank_table :: "query_row list" where
  "new_rank_table =
     [\<lparr> Phase_id = 2, Clicks = 3, Impressions = 40, Position = 5, Top_Queries = ''x'' \<rparr>]"

text \<open>Nine queries of phases 1 and 2, one for each branch of the tier classifier.\<close>

definition nine_tiers_table :: "query_row list" where
  "nine_tiers_table =
     [\<lparr> Phase_id = 2, Clicks = 1, Impressions = 10, Position = 5, Top_Queries = ''q1'' \<rparr>,
      \<lparr> Phase_id = 1, Clicks = 1, Impressions = 10, Position = 5, Top_Queries = ''q2'' \<rparr>,
      \<lparr> Phase_id = 2, Clicks = 1, Impressions = 10, Position = 2, Top_Queries = ''q2'' \<rparr>,
      \<lparr> Phase_id = 1, Clicks = 1, Impressions = 10, Position = 30, Top_Queries = ''q3'' \<rparr>,
      \<lparr> Phase_id = 2, Clicks = 1, Impressions = 10, Position = 15, Top_Queries = ''q3'' \<rparr>,
      \<lparr> Phase_id = 1, Clicks = 1, Impressions = 10, Position = 12, Top_Queries = ''q4'' \<rparr>,
      \<lparr> Phase_id = 2, Clicks = 1, Impressions = 10, Position = 8, Top_Queries = ''q4'' \<rparr>,
      \<lparr> Phase_id = 1, Clicks = 1, Impressions = 10, Position = 20, Top_Queries = ''q5'' \<rparr>,
      \<lparr> Phase_id = 2, Clicks = 1, Impressions = 10, Position = 19, Top_Queries = ''q5'' \<rparr>,
      \<lparr> Phase_id = 1, Clicks = 1, Impressions = 10, Position = 2, Top_Queries = ''q6'' \<rparr>,
      \<lparr> Phase_id = 1, Clicks = 1, Impressions = 10, Position = 5, Top_Queries = ''q7'' \<rparr>,
      \<lparr> Phase_id = 2, Clicks = 1, Impressions = 10, Position = 9, Top_Queries = ''q7'' \<rparr>,
      \<lparr> Phase_id = 1, Clicks = 1, Impressions = 10, Position = 20, Top_Queries = ''q8'' \<rparr>,
      \<lparr> Phase_id = 2, Clicks = 1, Impressions = 10, Position = 21, Top_Queries = ''q8'' \<rparr>,
      \<lparr> Phase_id = 1, Clicks = 1, Impressions = 10, Position = 5, Top_Queries = ''q9'' \<rparr>,
      \<lparr> Phase_id = 2, Clicks = 1, Impressions = 10, Position = 5, Top_Queries = ''q9'' \<rparr>]"

text \<open>Four rows of a merged tier frame, used to exercise the sign invariant.\<close>

definition sign_rows :: "tier_row list" where
  "sign_rows =
     [\<lparr> Query = ''lost'', Clicks_A = 1, Impressions_A = 10, Position_A = 2,
        Clicks_B = 0, Impressions_B = 0, Position_B = 0, Pos_Delta = 98 \<rparr>,
      \<lparr> Query = ''jump'', Clicks_A = 1, Impressions_A = 10, Position_A = 30,
        Clicks_B = 1, Impressions_B = 10, Position_B = 15, Pos_Delta = - 15 \<rparr>,
      \<lparr> Query = ''same'', Clicks_A = 1, Impressions_A = 10, Position_A = 5,
        Clicks_B = 1, Impressions_B = 10, Position_B = 5, Pos_Delta = 0 \<rparr>,
      \<lparr> Query = ''deep'', Clicks_A = 0, Impressions_A = 0, Position_A = 0,
        Clicks_B = 1, Impressions_B = 10, Position_B = 120, Pos_Delta = 20 \<rparr>]"

text \<open>
  Two queries of phases 1 and 2: \<^verbatim>\<open>r\<close> gains nine points of CTR and drops ten
  positions, \<^verbatim>\<open>w\<close> gains two positions and ten impressions. The second table holds
  \<^verbatim>\<open>w\<close> alone. \<open>crash_frame\<close> is the analysis frame of the first table.
\<close>

definition crash_table :: "query_row list" where
  "crash_table =
     [\<lparr> Phase_id = 1, Clicks = 1, Impressions = 100, Position = 5, Top_Queries = ''r'' \<rparr>,
      \<lparr> Phase_id = 2, Clicks = 10, Impressions = 100, Position = 15, Top_Queries = ''r'' \<rparr>,
      \<lparr> Phase_id = 1, Clicks = 1, Impressions = 10, Position = 10, Top_Queries = ''w'' \<rparr>,
      \<lparr> Phase_id = 2, Clicks = 2, Impressions = 20, Position = 8, Top_Queries = ''w'' \<rparr>]"

definition no_risk_table :: "query_row list" where
  "no_risk_table =
     [\<lparr> Phase_id = 1, Clicks = 1, Impressions = 10, Position = 10, Top_Queries = ''w'' \<rparr>,
      \<lparr> Phase_id = 2, Clicks = 2, Impressions = 20, Position = 8, Top_Queries = ''w'' \<rparr>]"

definition crash_frame :: "st_row list" where
  "crash_frame =
     [\<lparr> Query = ''r'', Clicks_A = 1, Impressions_A = 100, Position_A = 5,
        Clicks_B = 10, Impressions_B = 100, Position_B = 15, Pos_Delta = 10,
        Imp_Delta = 0, CTR_A = Fin 1, CTR_B = Fin 10, CTR_Delta = Fin 9 \<rparr>,
      \<lparr> Query = ''w'', Clicks_A = 1, Impressions_A = 10, Position_A = 10,
        Clicks_B = 2, Impressions_B = 20, Position_B = 8, Pos_Delta = - 2,
        Imp_Delta = 10, CTR_A = Fin 10, CTR_B = Fin 10, CTR_Delta = Fin 0 \<rparr>]"

text \<open>
  Three queries of phases 1 and 2, one for each criterion: \<^verbatim>\<open>r\<close> gains 25 points of
  CTR and drops ten positions, \<^verbatim>\<open>t\<close> gains two positions and four impressions,
  \<^verbatim>\<open>w\<close> gains 25 points of CTR and keeps its position. Every cell of the frame is
  an exact binary64 number. \<open>three_way_frame\<close> is the analysis frame of the table.
\<close>

definition three_way_table :: "query_row list" where
  "three_way_table =
     [\<lparr> Phase_id = 1, Clicks = 0, Impressions = 4, Position = 5, Top_Queries = ''r'' \<rparr>,
      \<lparr> Phase_id = 2, Clicks = 1, Impressions = 4, Position = 15, Top_Queries = ''r'' \<rparr>,
      \<lparr> Phase_id = 1, Clicks = 1, Impressions = 4, Position = 10, Top_Queries = ''t'' \<rparr>,
      \<lparr> Phase_id = 2, Clicks = 2, Impressions = 8, Position = 8, Top_Queries = ''t'' \<rparr>,
      \<lparr> Phase_id = 1, Clicks = 0, Impressions = 4, Position = 5, Top_Queries = ''w'' \<rparr>,
      \<lparr> Phase_id = 2, Clicks = 1, Impressions = 4, Position = 5, Top_Queries = ''w'' \<rparr>]"

definition three_way_frame :: "st_row list" where
  "three_way_frame =
     [\<lparr> Query = ''r'', Clicks_A = 0, Impressions_A = 4, Position_A = 5,
        Clicks_B = 1, Impressions_B = 4, Position_B = 15, Pos_Delta = 10,
        Imp_Delta = 0, CTR_A = Fin 0, CTR_B = Fin 25, CTR_Delta = Fin 25 \<rparr>,
      \<lparr> Query = ''t'', Clicks_A = 1, Impressions_A = 4, Position_A = 10,
        Clicks_B = 2, Impressions_B = 8, Position_B = 8, Pos_Delta = - 2,
        Imp_Delta = 4, CTR_A = Fin 25, CTR_B = Fin 25, CTR_Delta = Fin 0 \<rparr>,
      \<lparr> Query = ''w'', Clicks_A = 0, Impressions_A = 4, Position_A = 5,
        Clicks_B = 1, Impressions_B = 4, Position_B = 5, Pos_Delta = 0,
        Imp_Delta = 0, CTR_A = Fin 0, CTR_B = Fin 25, CTR_Delta = Fin 25 \<rparr>]"

text \<open>
  \<open>sentinel_table\<close>: query \<^verbatim>\<open>x\<close> is absent from phase 1 and ranks at 5 in phase 2,
  query \<^verbatim>\<open>y\<close> ranks at 3 in phase 1 and is absent from phase 2; \<open>swap_frame\<close> is
  the delta frame of phases 1 and 2 on it. \<open>zero_impressions_table\<close>: a query with
  five clicks and no impression in phase 1.
\<close>

definition sentinel_table :: "query_row list" where
  "sentinel_table =
     [\<lparr> Phase_id = 2, Clicks = 3, Impressions = 40, Position = 5, Top_Queries = ''x'' \<rparr>,
      \<lparr> Phase_id = 1, Clicks = 2, Impressions = 30, Position = 3, Top_Queries = ''y'' \<rparr>]"

definition zero_impressions_table :: "query_row list" where
  "zero_impressions_table =
     [\<lparr> Phase_id = 1, Clicks = 5, Impressions = 0, Position = 3, Top_Queries = ''x'' \<rparr>,
      \<lparr> Phase_id = 2, Clicks = 7, Impressions = 10, Position = 4, Top_Queries = ''x'' \<rparr>]"

definition swap_frame :: "delta_row list" where
  "swap_frame =
     [\<lparr> Query = ''x'', Clicks_A = 0, Impressions_A = 0, Position_A = 0,
        Clicks_B = 3, Impressions_B = 40, Position_B = 5, Pos_Delta = - 95,
        Imp_Delta = 40, CTR_A = Fin 0, CTR_B = Fin (15 / 2), CTR_Delta = Fin (15 / 2),
        Click_Delta = 3 \<rparr>,
      \<lparr> Query = ''y'', Clicks_A = 2, Impressions_A = 30, Position_A = 3,
        Clicks_B = 0, Impressions_B = 0, Position_B = 0, Pos_Delta = 97,
        Imp_Delta = - 30, CTR_A = Fin (20 / 3), CTR_B = Fin 0, CTR_Delta = Fin (- (20 / 3)),
        Click_Delta = - 2 \<rparr>]"

section \<open>The phase summary on no rows\<close>

lemma filter_phase_none:
  "\<forall>r\<in>set df. Phase_id r \<noteq> p \<Longrightarrow> filter (\<lambda>r. Phase_id r = p) df = []"
  by (induction df) auto

text \<open>
  C5 (as amended). When the frame has no row of the requested phase,
  \<^verbatim>\<open>calculate_phase_metrics\<close> returns a dictionary and raises nothing: the total
  clicks and the total impressions are 0 and the CTR is 0. The mean position is the
  mean of an empty series, which is NaN, not 0.
\<close>

theorem empty_phase_summary:
  "\<forall>r\<in>set df. Phase_id r \<noteq> phase_id \<Longrightarrow>
   calculate_phase_metrics phase_id df =
     \<lparr> m_Phase_id = phase_id, m_Clicks = 0, m_Impressions = 0,
       m_Position = NaN, m_CTR = Fin 0 \<rparr>"
  by (simp add: calculate_phase_metrics_def filter_phase_none series_mean_def)

theorem empty_phase_summary_witness:
  "calculate_phase_metrics 1
     [\<lparr> Phase_id = 2, Clicks = 4, Impressions = 50, Position = 6 \<rparr>] =
     \<lparr> m_Phase_id = 1, m_Clicks = 0, m_Impressions = 0, m_Position = NaN, m_CTR = Fin 0 \<rparr>"
  using empty_phase_summary
    [of "[\<lparr> Phase_id = 2, Clicks = 4, Impressions = 50, Position = 6 \<rparr>]" 1]
  by simp

text \<open>
  C5 as stated fails on the empty frame: the mean-position field of the summary is
  NaN there, so it is not a zero-valued metric.
\<close>

theorem empty_phase_position_counterexample:
  "m_Position (calculate_phase_metrics 1 ([] :: phase_row list)) = NaN \<and>
   m_Position (calculate_phase_metrics 1 ([] :: phase_row list)) \<noteq> Fin 0"
  by (simp add: calculate_phase_metrics_def series_mean_def)

section \<open>The tier classifier\<close>

lemmas pipeline_defs = aggregate_queries_def merge_outer_fillna_def filled_def mean_real_def
  pos_delta_def replace0_def MAX_RANK_def

lemma categorize_tier_cascade:
  "categorize_tier_enhanced r = first_match spec_tier_cascade ''No Change'' r"
  unfolding categorize_tier_enhanced_def Let_def
  by (auto simp: spec_tier_cascade_def)

lemma categorize_tier_label: "categorize_tier_enhanced r \<in> set tier_labels"
  unfolding categorize_tier_enhanced_def Let_def
  by (simp add: tier_labels_def spec_tier_cascade_def)

lemma tier_labels_distinct: "distinct tier_labels \<and> length tier_labels = 9"
  by (simp add: tier_labels_def spec_tier_cascade_def)

lemma tier_analysis_row:
  "r \<in> set (tier_analysis_df merged) \<Longrightarrow> Pos_Delta r = pos_delta r \<and> tier_filter r"
  by (auto simp: tier_analysis_df_def pos_delta_def tier_filter_def)

lemma new_rank_classified:
  "map_sum id (\<lambda>m. map (\<lambda>r. (Position_A r, Position_B r, Pos_Delta r,
                              categorize_tier_enhanced r)) (tier_analysis_df m))
     (tier_merged 1 2 new_rank_table) = Inr [(0, 5, - 95, ''Tier S (New Rank)'')]"
  by (simp add: tier_merged_def new_rank_table_def pipeline_defs with_pos_delta_def
      tier_analysis_df_def tier_filter_def categorize_tier_enhanced_def)

lemma nine_tiers_classified:
  "tier_merged 1 2 nine_tiers_table = Inr m \<Longrightarrow>
   Tier_Class (tier_analysis_df m) = tier_labels"
  unfolding tier_labels_def spec_tier_cascade_def
  by (auto simp add: tier_merged_def nine_tiers_table_def pipeline_defs with_pos_delta_def
      tier_analysis_df_def tier_filter_def Tier_Class_def categorize_tier_enhanced_def)

text \<open>
  C2 (as amended). The tier classifier is a total function of the row: on every frame
  the \<^verbatim>\<open>Tier_Class\<close> column holds exactly one label per row, the label is the one the
  ordered cascade of the eight predicates gives with the first match winning and
  \<^verbatim>\<open>No Change\<close> when none matches, and it is one of nine pairwise different labels
  (the eight tiers of the cascade and \<^verbatim>\<open>No Change\<close>). The query with position 0 in
  phase A and 5 in phase B has \<^verbatim>\<open>Pos_Delta\<close> = -95 and is labelled Tier S (New Rank),
  not Tier S+.
\<close>

theorem tier_classifier_first_match:
  "Tier_Class df = map (first_match spec_tier_cascade ''No Change'') df \<and>
   length (Tier_Class df) = length df \<and>
   set (Tier_Class df) \<subseteq> set tier_labels \<and>
   distinct tier_labels \<and> length tier_labels = 9 \<and>
   map_sum id (\<lambda>m. map (\<lambda>r. (Position_A r, Position_B r, Pos_Delta r,
                              categorize_tier_enhanced r)) (tier_analysis_df m))
     (tier_merged 1 2 new_rank_table) = Inr [(0, 5, - 95, ''Tier S (New Rank)'')]"
proof -
  have "Tier_Class df = map (first_match spec_tier_cascade ''No Change'') df"
    by (simp add: Tier_Class_def categorize_tier_cascade)
  moreover have "set (Tier_Class df) \<subseteq> set tier_labels"
    using categorize_tier_label by (auto simp: Tier_Class_def)
  ultimately show ?thesis
    using tier_labels_distinct new_rank_classified by (simp add: Tier_Class_def)
qed

text \<open>
  C2 as stated fails: the nine queries of \<open>nine_tiers_table\<close> all pass the pre-filter
  and receive nine different labels, so no list of eight labels holds every label the
  classifier assigns.
\<close>

theorem tier_labels_counterexample:
  "\<not> (\<exists>labels. length labels \<le> 8 \<and>
        (\<exists>m. tier_merged 1 2 nine_tiers_table = Inr m \<and>
             set (Tier_Class (tier_analysis_df m)) \<subseteq> set labels))"
proof
  assume "\<exists>labels. length labels \<le> 8 \<and>
        (\<exists>m. tier_merged 1 2 nine_tiers_table = Inr m \<and>
             set (Tier_Class (tier_analysis_df m)) \<subseteq> set labels)"
  then obtain labels m where len: "length labels \<le> 8"
    and m: "tier_merged 1 2 nine_tiers_table = Inr m"
    and sub: "set (Tier_Class (tier_analysis_df m)) \<subseteq> set labels"
    by blast
  from m sub have "set tier_labels \<subseteq> set labels"
    by (simp add: nine_tiers_classified)
  then have "card (set tier_labels) \<le> card (set labels)"
    by (simp add: card_mono)
  moreover have "card (set tier_labels) = 9"
    using tier_labels_distinct by (simp add: distinct_card)
  moreover have "card (set labels) \<le> length labels"
    by (rule card_length)
  ultimately show False using len by linarith
qed

text \<open>
  C9. On every row of \<^verbatim>\<open>tier_analysis_df\<close>: each of the three decliner labels
  implies \<^verbatim>\<open>Pos_Delta\<close> > 0, each of the labels Tier S++, Tier S+, Tier A and Tier B
  implies \<^verbatim>\<open>Pos_Delta\<close> < 0, and \<^verbatim>\<open>No Change\<close> implies \<^verbatim>\<open>Pos_Delta\<close> = 0. Tier S
  (New Rank) does not fix the sign: a row with position 0 in phase A and a position of
  at least 100 in phase B is labelled Tier S and has \<^verbatim>\<open>Pos_Delta\<close> \<ge> 0.
\<close>

theorem tier_sign_invariant:
  "r \<in> set (tier_analysis_df merged) \<Longrightarrow>
   (categorize_tier_enhanced r \<in> {''Decliner S (Crash/Lost)'', ''Decliner A (Top 10 Drop)'',
        ''Decliner B (General Drop)''} \<longrightarrow> 0 < Pos_Delta r) \<and>
   (categorize_tier_enhanced r \<in> {''Tier S++ (Top 3 Win)'', ''Tier S+ (Jump 10+)'',
        ''Tier A (Top 10 Solid)'', ''Tier B (General Jump)''} \<longrightarrow> Pos_Delta r < 0) \<and>
   (categorize_tier_enhanced r = ''No Change'' \<longrightarrow> Pos_Delta r = 0) \<and>
   (Position_A r = 0 \<and> 100 \<le> Position_B r \<longrightarrow>
      categorize_tier_enhanced r = ''Tier S (New Rank)'' \<and> 0 \<le> Pos_Delta r)"
proof -
  assume "r \<in> set (tier_analysis_df merged)"
  then have pd: "Pos_Delta r = pos_delta r" by (simp add: tier_analysis_row)
  show ?thesis
    unfolding categorize_tier_enhanced_def Let_def pd
    by (auto simp: pos_delta_def replace0_def MAX_RANK_def split: if_splits)
qed

theorem tier_sign_invariant_witness:
  "tier_analysis_df sign_rows = sign_rows \<and>
   map (\<lambda>r. (categorize_tier_enhanced r, Pos_Delta r)) sign_rows =
     [(''Decliner S (Crash/Lost)'', 98), (''Tier S+ (Jump 10+)'', - 15),
      (''No Change'', 0), (''Tier S (New Rank)'', 20)]"
proof -
  have eq: "tier_analysis_df sign_rows = sign_rows"
    by (simp add: tier_analysis_df_def sign_rows_def tier_filter_def pos_delta_def
        replace0_def MAX_RANK_def)
  have mem: "\<forall>r \<in> set sign_rows. r \<in> set (tier_analysis_df sign_rows)"
    by (simp add: eq)
  have "\<forall>r \<in> set sign_rows.
          (categorize_tier_enhanced r = ''No Change'' \<longrightarrow> Pos_Delta r = 0)"
    using tier_sign_invariant [of _ sign_rows] mem by blast
  then show ?thesis
    using eq by (simp add: sign_rows_def categorize_tier_enhanced_def)
qed

section \<open>The scorecard\<close>

lemmas st_defs = st_merged_def st_analysis_df_def st_filter_def with_st_columns_def
  ctr_def true_divide_def

lemma crash_table_frame: "st_analysis_df (st_merged 1 2 crash_table) = crash_frame"
  by (simp add: crash_table_def crash_frame_def st_defs pipeline_defs)

lemma no_risk_table_frame:
  "st_analysis_df (st_merged 1 2 no_risk_table) = [crash_frame ! 1]"
  by (simp add: no_risk_table_def crash_frame_def st_defs pipeline_defs)

lemma criteria_exclusive:
  "\<not> (is_true_win r \<and> is_risk r) \<and> \<not> (is_true_win r \<and> is_ineffective r) \<and>
   \<not> (is_risk r \<and> is_ineffective r)"
  by (auto simp: is_true_win_def is_risk_def is_ineffective_def)

lemma three_filters_length:
  "length (filter is_true_win df) + length (filter is_risk df) + length (filter is_ineffective df)
     \<le> length df"
proof (induction df)
  case Nil
  then show ?case by simp
next
  case (Cons a df)
  then show ?case using criteria_exclusive [of a] by auto
qed

text \<open>
  C3 (as amended). Each of the three criteria is its own mask over the scorecard
  population, evaluated without regard to the other two, but the masks are mutually
  exclusive: True Win needs \<^verbatim>\<open>Pos_Delta\<close> < 0, Risk needs \<^verbatim>\<open>Pos_Delta\<close> > 0 and Wasted
  needs \<^verbatim>\<open>Pos_Delta\<close> = 0. The three selected frames are pairwise disjoint and their
  counts sum to at most the size of the population.
\<close>

theorem criteria_disjoint:
  "set (true_wins_df df) \<inter> set (risky_df df) = {} \<and>
   set (true_wins_df df) \<inter> set (ineffective_df df) = {} \<and>
   set (risky_df df) \<inter> set (ineffective_df df) = {} \<and>
   length (true_wins_df df) + length (risky_df df) + length (ineffective_df df) \<le> length df"
  using criteria_exclusive three_filters_length [of df]
  by (auto simp: true_wins_df_def risky_df_def ineffective_df_def)

text \<open>
  C3 as stated fails: no row of the population satisfies more than one of the three
  criteria.
\<close>

theorem criteria_overlap_counterexample:
  "\<not> (\<exists>r :: st_row. st_filter r \<and>
        ((is_true_win r \<and> is_risk r) \<or> (is_true_win r \<and> is_ineffective r) \<or>
         (is_risk r \<and> is_ineffective r)))"
  using criteria_exclusive by blast

lemma abs_sum_nonpos: "\<forall>x\<in>set xs. x \<le> (0::real) \<Longrightarrow> \<bar>sum_list xs\<bar> = sum_list (map abs xs)"
proof (induction xs)
  case Nil then show ?case by simp
next
  case (Cons x xs)
  then have "sum_list xs \<le> 0" by (simp add: sum_list_nonpos)
  with Cons show ?case by simp
qed

lemma avg_win_depth_spec: "avg_win_depth df = spec_avg_true_win_depth df"
proof -
  have "\<forall>x\<in>set (map Pos_Delta (true_wins_df df)). x \<le> 0"
    by (auto simp: true_wins_df_def is_true_win_def)
  then have "\<bar>sum_list (map Pos_Delta (true_wins_df df))\<bar> =
      sum_list (map abs (map Pos_Delta (true_wins_df df)))"
    by (rule abs_sum_nonpos)
  then show ?thesis
    by (simp add: avg_win_depth_def spec_avg_true_win_depth_def mean_real_def abs_divide comp_def)
qed

lemma avg_win_depth_nonneg: "0 \<le> avg_win_depth df"
  by (simp add: avg_win_depth_def)

text \<open>
  C7. The crash flag is raised exactly when the average Risk depth exceeds 1.5 times the
  average True-Win depth, both as the specification words them (the source takes the
  absolute value of the mean where the specification takes the mean of the absolute
  values; on True Win rows, whose \<^verbatim>\<open>Pos_Delta\<close> is negative, they agree). With no Risk
  row the flag is not raised. The flag of the scorecard is this flag.
\<close>

theorem crash_flag_rule:
  "(is_crash df \<longleftrightarrow> 1.5 * spec_avg_true_win_depth df < spec_avg_risk_depth df) \<and>
   (risky_df df = [] \<longrightarrow> \<not> is_crash df) \<and>
   (\<forall>sc. strategy_scorecard df = Some sc \<longrightarrow> sc_is_crash sc = is_crash df)"
proof -
  have a: "is_crash df \<longleftrightarrow> 1.5 * spec_avg_true_win_depth df < spec_avg_risk_depth df"
    by (simp add: is_crash_def avg_win_depth_spec avg_loss_depth_def spec_avg_risk_depth_def
        mult.commute)
  have b: "risky_df df = [] \<longrightarrow> \<not> is_crash df"
    using avg_win_depth_nonneg [of df] by (simp add: is_crash_def avg_loss_depth_def)
  have c: "\<forall>sc. strategy_scorecard df = Some sc \<longrightarrow> sc_is_crash sc = is_crash df"
    by (auto simp: strategy_scorecard_def Let_def split: if_splits)
  from a b c show ?thesis by blast
qed

theorem crash_flag_rule_witness:
  "is_crash (st_analysis_df (st_merged 1 2 crash_table)) \<and>
   spec_avg_true_win_depth (st_analysis_df (st_merged 1 2 crash_table)) = 2 \<and>
   spec_avg_risk_depth (st_analysis_df (st_merged 1 2 crash_table)) = 10 \<and>
   risky_df (st_analysis_df (st_merged 1 2 no_risk_table)) = [] \<and>
   \<not> is_crash (st_analysis_df (st_merged 1 2 no_risk_table))"
proof -
  have w: "spec_avg_true_win_depth crash_frame = 2"
    by (simp add: spec_avg_true_win_depth_def true_wins_df_def is_true_win_def
        crash_frame_def mean_real_def)
  have l: "spec_avg_risk_depth crash_frame = 10"
    by (simp add: spec_avg_risk_depth_def risky_df_def is_risk_def crash_frame_def
        mean_real_def)
  have n: "risky_df [crash_frame ! 1] = []"
    by (simp add: risky_df_def is_risk_def crash_frame_def)
  have a: "is_crash crash_frame"
    using crash_flag_rule [of crash_frame] w l by simp
  have b: "\<not> is_crash [crash_frame ! 1]"
    using crash_flag_rule [of "[crash_frame ! 1]"] n by blast
  from w l n a b show ?thesis
    by (simp add: crash_table_frame no_risk_table_frame)
qed

lemma categorize_outcome_cascade:
  "categorize_outcome r = first_match spec_outcome_cascade ''Others'' r"
  by (simp add: categorize_outcome_def spec_outcome_cascade_def)

lemma categorize_outcome_criteria:
  "(categorize_outcome r = ''True Win'' \<longleftrightarrow> is_true_win r) \<and>
   (categorize_outcome r = ''Risk (Drop)'' \<longleftrightarrow> is_risk r) \<and>
   (categorize_outcome r = ''Wasted'' \<longleftrightarrow> is_ineffective r)"
  by (auto simp: categorize_outcome_def is_true_win_def is_risk_def is_ineffective_def)

lemma categorize_outcome_label:
  "categorize_outcome r \<in> {''True Win'', ''Risk (Drop)'', ''Wasted'', ''Others''}"
  by (simp add: categorize_outcome_def)

lemma count_list_map_filter:
  "count_list (map f xs) c = length (filter (\<lambda>x. f x = c) xs)"
  by (induction xs) auto

lemma category_counts_partition:
  "count_list (Category df) ''True Win'' + count_list (Category df) ''Risk (Drop)'' +
   count_list (Category df) ''Wasted'' + count_list (Category df) ''Others'' = length df"
proof (induction df)
  case Nil
  then show ?case by (simp add: Category_def)
next
  case (Cons a df)
  then show ?case
    using categorize_outcome_label [of a] by (auto simp: Category_def)
qed

lemma category_counts_scorecard:
  "count_list (Category df) ''True Win'' = length (true_wins_df df) \<and>
   count_list (Category df) ''Risk (Drop)'' = length (risky_df df) \<and>
   count_list (Category df) ''Wasted'' = length (ineffective_df df)"
  by (simp add: Category_def count_list_map_filter categorize_outcome_criteria
      true_wins_df_def risky_df_def ineffective_df_def)

text \<open>
  The rounding model: \<open>rne\<close> is within a half of its argument and keeps an integer,
  and \<open>binade\<close> finds the power of two at or below a positive number that its steps
  can reach.
\<close>

lemma rne_nearest: "\<bar>of_int (rne x) - x\<bar> \<le> 1 / 2"
  unfolding rne_def Let_def by (auto simp: abs_if) linarith+

lemma rne_int: "rne (of_int k) = k"
  by (simp add: rne_def)

lemma powi_step: "(2::real) powi (k + 1) = 2 * 2 powi k"
  by (simp add: power_int_add)

lemma powi_pred: "(2::real) powi (k - 1) = 2 powi k / 2"
  by (simp add: power_int_diff)

lemma binade_bounds:
  "2 powi (- int n) \<le> x \<Longrightarrow> x < 2 powi (int n + 1) \<Longrightarrow>
   2 powi (binade n x) \<le> x \<and> x < 2 powi (binade n x + 1)"
proof (induction n arbitrary: x)
  case 0
  then show ?case by simp
next
  case (Suc n)
  have lo: "(2::real) powi (- int n) = 2 * 2 powi (- int (Suc n))"
    using powi_step [of "- int (Suc n)"] by simp
  have hi: "(2::real) powi (int (Suc n) + 1) = 2 * 2 powi (int n + 1)"
    using powi_step [of "int n + 1"] by (simp add: add.commute)
  show ?case
  proof (cases "x < 1")
    case True
    have "2 powi (- int n) \<le> x * 2"
      using Suc.prems(1) lo by simp
    moreover have "x * 2 < 2 powi (int n + 1)"
    proof -
      have "(2::real) powi 1 \<le> 2 powi (int n + 1)"
        by (rule power_int_increasing) simp_all
      then show ?thesis using True by simp
    qed
    ultimately have "2 powi (binade n (x * 2)) \<le> x * 2 \<and> x * 2 < 2 powi (binade n (x * 2) + 1)"
      by (rule Suc.IH)
    then show ?thesis
      using True powi_pred [of "binade n (x * 2)"] powi_step [of "binade n (x * 2)"]
      by simp
  next
    case False
    show ?thesis
    proof (cases "2 \<le> x")
      case True
      have "2 powi (- int n) \<le> x / 2"
      proof -
        have "(2::real) powi (- int n) \<le> 2 powi 0"
          by (rule power_int_increasing) simp_all
        then show ?thesis using True by simp
      qed
      moreover have "x / 2 < 2 powi (int n + 1)"
        using Suc.prems(2) hi by simp
      ultimately have "2 powi (binade n (x / 2)) \<le> x / 2 \<and> x / 2 < 2 powi (binade n (x / 2) + 1)"
        by (rule Suc.IH)
      then show ?thesis
        using True False powi_step [of "binade n (x / 2)"] powi_step [of "binade n (x / 2) + 1"]
        by (simp add: add.commute)
    next
      case False
      with \<open>\<not> x < 1\<close> show ?thesis by simp
    qed
  qed
qed

text \<open>
  The rounding model on known binary64 numbers: 0.1 is
  \<^verbatim>\<open>3602879701896397 / 2^55\<close>, a number with a short binary expansion is kept, and
  \<^verbatim>\<open>1 / 3 * 100\<close> is the float Python prints as \<^verbatim>\<open>33.33333333333333\<close>.
\<close>

lemma round64_tenth: "round64 (1 / 10) = 3602879701896397 / 2 ^ 55"
  by code_simp

lemma round64_exact: "round64 25 = 25 \<and> round64 (1 / 4) = 1 / 4 \<and> round64 100 = 100"
  by code_simp

lemma pct_exact: "pct 1 4 = 25 \<and> pct 1 2 = 50 \<and> pct 3 3 = 100 \<and> pct 0 3 = 0"
  by code_simp

lemma pct_one_third: "pct 1 3 = 4691249611844266 / 2 ^ 47"
  by code_simp

lemma three_rates_sum:
  "float_add (float_add (float_add (4691249611844266 / 2 ^ 47) (4691249611844266 / 2 ^ 47))
     (4691249611844266 / 2 ^ 47)) 0 = 100 - 1 / 2 ^ 46"
  by code_simp

lemma three_way_table_frame:
  "st_analysis_df (st_merged 1 2 three_way_table) = three_way_frame"
  by (simp add: three_way_table_def three_way_frame_def st_defs pipeline_defs)

text \<open>
  C8 (as amended). \<^verbatim>\<open>categorize_outcome\<close> gives every row of the population exactly
  one of the four categories, the one the priority list True Win, Risk, Wasted gives
  with the first match winning and \<^verbatim>\<open>Others\<close> when none matches. Whenever the
  scorecard is computed (the population is not empty), the four category counts add up
  to the number of queries, which is the number of rows, and the counts of True Win,
  Risk and Wasted are the three counts of the scorecard. Nothing is claimed of the sum
  of the rates.
\<close>

theorem outcome_partition:
  assumes "strategy_scorecard df = Some sc"
  shows "Category df = map (first_match spec_outcome_cascade ''Others'') df \<and>
   length (Category df) = length df \<and>
   set (Category df) \<subseteq> {''True Win'', ''Risk (Drop)'', ''Wasted'', ''Others''} \<and>
   count_list (Category df) ''True Win'' + count_list (Category df) ''Risk (Drop)'' +
     count_list (Category df) ''Wasted'' + count_list (Category df) ''Others'' =
     total_queries sc \<and>
   total_queries sc = length df \<and>
   count_list (Category df) ''True Win'' = count_wins sc \<and>
   count_list (Category df) ''Risk (Drop)'' = count_risk sc \<and>
   count_list (Category df) ''Wasted'' = count_ineffective sc"
proof -
  from assms have tq: "total_queries sc = length df"
    and cw: "count_wins sc = length (true_wins_df df)"
    and cr: "count_risk sc = length (risky_df df)"
    and ci: "count_ineffective sc = length (ineffective_df df)"
    by (auto simp: strategy_scorecard_def Let_def split: if_splits)
  have 1: "Category df = map (first_match spec_outcome_cascade ''Others'') df"
    by (simp add: Category_def categorize_outcome_cascade)
  have 2: "set (Category df) \<subseteq> {''True Win'', ''Risk (Drop)'', ''Wasted'', ''Others''}"
    using categorize_outcome_label by (auto simp: Category_def)
  have 3: "length (Category df) = length df"
    by (simp add: Category_def)
  have 4: "count_list (Category df) ''True Win'' + count_list (Category df) ''Risk (Drop)'' +
     count_list (Category df) ''Wasted'' + count_list (Category df) ''Others'' =
     total_queries sc"
    by (simp add: tq category_counts_partition)
  have 5: "count_list (Category df) ''True Win'' = count_wins sc"
    by (simp add: cw category_counts_scorecard)
  have 6: "count_list (Category df) ''Risk (Drop)'' = count_risk sc"
    by (simp add: cr category_counts_scorecard)
  have 7: "count_list (Category df) ''Wasted'' = count_ineffective sc"
    by (simp add: ci category_counts_scorecard)
  from 1 2 3 4 tq 5 6 7 show ?thesis by blast
qed

theorem outcome_partition_witness:
  "map_option (\<lambda>sc. (total_queries sc, count_wins sc, count_risk sc, count_ineffective sc))
     (strategy_scorecard (st_analysis_df (st_merged 1 2 crash_table))) = Some (2, 1, 1, 0) \<and>
   Category (st_analysis_df (st_merged 1 2 crash_table)) = [''Risk (Drop)'', ''True Win''] \<and>
   map (count_list (Category (st_analysis_df (st_merged 1 2 crash_table))))
     [''True Win'', ''Risk (Drop)'', ''Wasted'', ''Others''] = [1, 1, 0, 0]"
proof -
  have c: "Category crash_frame = [''Risk (Drop)'', ''True Win'']"
    by (simp add: Category_def categorize_outcome_def crash_frame_def)
  obtain sc where sc: "strategy_scorecard crash_frame = Some sc"
    by (simp add: strategy_scorecard_def crash_frame_def)
  have tq: "total_queries sc = 2"
    using sc by (auto simp: strategy_scorecard_def crash_frame_def)
  have "count_wins sc = 1 \<and> count_risk sc = 1 \<and> count_ineffective sc = 0"
    using outcome_partition [OF sc] by (simp add: c)
  then show ?thesis
    using sc tq by (simp add: crash_table_frame c)
qed

text \<open>
  C8 as stated fails on the rates. In the population of \<open>three_way_table\<close> each of True
  Win, Risk and Wasted has one row out of three and \<^verbatim>\<open>Others\<close> has none. The three
  rates of the scorecard are \<^verbatim>\<open>1 / 3 * 100\<close>, the float 33.33333333333333 each, the
  rate of \<^verbatim>\<open>Others\<close> by the same formula is 0, and their float sum is
  \<open>100 - 2^-46\<close> (printed 99.99999999999999), not 100. Adding three equal floats and
  a zero gives the same result in every order.
\<close>

theorem outcome_rates_counterexample:
  "Category (st_analysis_df (st_merged 1 2 three_way_table)) =
     [''Risk (Drop)'', ''True Win'', ''Wasted''] \<and>
   map_option (\<lambda>sc. (total_queries sc, pct_wins sc, pct_risk sc, pct_ineffective sc))
     (strategy_scorecard (st_analysis_df (st_merged 1 2 three_way_table))) =
     Some (3, 4691249611844266 / 2 ^ 47, 4691249611844266 / 2 ^ 47,
           4691249611844266 / 2 ^ 47) \<and>
   float_add
     (float_add
        (float_add
           (pct (count_list (Category (st_analysis_df (st_merged 1 2 three_way_table)))
                   ''True Win'') 3)
           (pct (count_list (Category (st_analysis_df (st_merged 1 2 three_way_table)))
                   ''Risk (Drop)'') 3))
        (pct (count_list (Category (st_analysis_df (st_merged 1 2 three_way_table)))
                ''Wasted'') 3))
     (pct (count_list (Category (st_analysis_df (st_merged 1 2 three_way_table)))
             ''Others'') 3) = 100 - 1 / 2 ^ 46 \<and>
   (100 - 1 / 2 ^ 46 :: real) \<noteq> 100"
proof -
  have c: "Category three_way_frame = [''Risk (Drop)'', ''True Win'', ''Wasted'']"
    by (simp add: Category_def categorize_outcome_def three_way_frame_def)
  have w: "length (true_wins_df three_way_frame) = 1"
    by (simp add: true_wins_df_def is_true_win_def three_way_frame_def)
  have r: "length (risky_df three_way_frame) = 1"
    by (simp add: risky_df_def is_risk_def three_way_frame_def)
  have i: "length (ineffective_df three_way_frame) = 1"
    by (simp add: ineffective_df_def is_ineffective_def three_way_frame_def)
  have n: "length three_way_frame = 3"
    by (simp add: three_way_frame_def)
  have z: "pct 0 3 = 0"
    using pct_exact by simp
  have p: "pct (Suc 0) 3 = 4691249611844266 / 2 ^ 47"
    using pct_one_third by simp
  have sc: "map_option (\<lambda>sc. (total_queries sc, pct_wins sc, pct_risk sc, pct_ineffective sc))
     (strategy_scorecard three_way_frame) =
     Some (3, 4691249611844266 / 2 ^ 47, 4691249611844266 / 2 ^ 47,
           4691249611844266 / 2 ^ 47)"
    by (simp add: strategy_scorecard_def Let_def w r i n p)
  have s: "float_add (float_add (float_add (pct 1 3) (pct 1 3)) (pct 1 3)) (pct 0 3) =
      100 - 1 / 2 ^ 46"
    unfolding pct_one_third z by (rule three_rates_sum)
  have ne: "(100 - 1 / 2 ^ 46 :: real) \<noteq> 100"
    by simp
  from c sc s ne show ?thesis
    by (simp add: three_way_table_frame)
qed

section \<open>The query delta table\<close>

lemma filled_cases:
  "(filled k agg = \<lparr> agg_Top_Queries = k, agg_Clicks = 0, agg_Impressions = 0, agg_Position = 0 \<rparr>
      \<and> k \<notin> agg_Top_Queries ` set agg) \<or>
   (filled k agg \<in> set agg \<and> agg_Top_Queries (filled k agg) = k)"
  by (auto simp: filled_def find_None_iff find_Some_iff split: option.splits)

lemma aggregate_keys:
  "agg_Top_Queries ` set (aggregate_queries p df) =
   Top_Queries ` {r \<in> set df. Phase_id r = p}"
  by (auto simp: aggregate_queries_def Let_def image_iff)

lemma mean_real_nonneg: "\<forall>x\<in>set xs. 0 \<le> x \<Longrightarrow> 0 \<le> mean_real xs"
  by (simp add: mean_real_def sum_list_nonneg)

lemma aggregate_nonneg:
  assumes "g \<in> set (aggregate_queries p df)"
  shows "(\<forall>x\<in>set df. 0 \<le> Position x) \<longrightarrow> 0 \<le> agg_Position g"
    and "(\<forall>x\<in>set df. 0 \<le> Clicks x) \<longrightarrow> 0 \<le> agg_Clicks g"
    and "(\<forall>x\<in>set df. 0 \<le> Impressions x) \<longrightarrow> 0 \<le> agg_Impressions g"
  using assms
  by (auto simp: aggregate_queries_def Let_def intro!: mean_real_nonneg sum_list_nonneg)

lemma filled_nonneg:
  "(\<forall>x\<in>set df. 0 \<le> Position x) \<Longrightarrow> 0 \<le> agg_Position (filled k (aggregate_queries p df))"
  "(\<forall>x\<in>set df. 0 \<le> Clicks x) \<Longrightarrow> 0 \<le> agg_Clicks (filled k (aggregate_queries p df))"
  "(\<forall>x\<in>set df. 0 \<le> Impressions x) \<Longrightarrow> 0 \<le> agg_Impressions (filled k (aggregate_queries p df))"
  using filled_cases [of k "aggregate_queries p df"] aggregate_nonneg [of "filled k (aggregate_queries p df)" p df]
  by auto

lemma filled_absent:
  "k \<notin> Top_Queries ` {r \<in> set df. Phase_id r = p} \<Longrightarrow>
   filled k (aggregate_queries p df) =
     \<lparr> agg_Top_Queries = k, agg_Clicks = 0, agg_Impressions = 0, agg_Position = 0 \<rparr>"
  using filled_cases [of k "aggregate_queries p df"] aggregate_keys [of p df]
  by (metis (no_types, lifting) image_eqI)

lemma merged_row_fields:
  "m \<in> set (merge_outer_fillna left right) \<Longrightarrow>
   Clicks_A m = agg_Clicks (filled (Query m) left) \<and>
   Impressions_A m = agg_Impressions (filled (Query m) left) \<and>
   Position_A m = agg_Position (filled (Query m) left) \<and>
   Clicks_B m = agg_Clicks (filled (Query m) right) \<and>
   Impressions_B m = agg_Impressions (filled (Query m) right) \<and>
   Position_B m = agg_Position (filled (Query m) right)"
  by (auto simp: merge_outer_fillna_def)

text \<open>
  The source's substitution and the specification's agree on positions that are not
  negative; on a negative cell, which no mean of reported positions is, the source
  keeps the cell where the specification's wording would put the sentinel.
\<close>

lemma replace0_negative:
  "replace0 MAX_RANK (- 1) = - 1 \<and> spec_sentinel_position (- 1) = 100"
  by (simp add: replace0_def MAX_RANK_def spec_sentinel_position_def)

lemma replace0_sentinel: "0 \<le> p \<Longrightarrow> replace0 MAX_RANK p = spec_sentinel_position p"
  by (simp add: replace0_def MAX_RANK_def spec_sentinel_position_def)

lemmas delta_defs = df_merged_def with_deltas_def ctr_def true_divide_def

lemma sentinel_table_frame: "df_merged 1 2 sentinel_table = Inr swap_frame"
  by (simp add: sentinel_table_def swap_frame_def delta_defs pipeline_defs)

text \<open>
  C1. For every row of the joined delta table of a query table whose positions are
  not negative, \<^verbatim>\<open>Pos_Delta\<close> is the difference of the sentinel-adjusted positions
  (position of phase B minus position of phase A, each replaced by 100 unless it is
  positive). So it is negative exactly when the adjusted position of phase B is the
  smaller one and positive exactly when it is the larger one; positions 0 and 5 give
  -95, positions 3 and 0 give 97.
\<close>

theorem pos_delta_sentinel_rule:
  assumes "\<forall>x\<in>set df. 0 \<le> Position x"
    and "df_merged a b df = Inr rows"
    and "r \<in> set rows"
  shows "Pos_Delta r = spec_Pos_Delta (Position_A r) (Position_B r) \<and>
    (Pos_Delta r < 0 \<longleftrightarrow> spec_sentinel_position (Position_B r) < spec_sentinel_position (Position_A r)) \<and>
    (0 < Pos_Delta r \<longleftrightarrow> spec_sentinel_position (Position_A r) < spec_sentinel_position (Position_B r)) \<and>
    (Position_A r = 0 \<and> Position_B r = 5 \<longrightarrow> Pos_Delta r = - 95) \<and>
    (Position_A r = 3 \<and> Position_B r = 0 \<longrightarrow> Pos_Delta r = 97)"
proof -
  from assms(2,3) obtain m where
    m: "m \<in> set (merge_outer_fillna (aggregate_queries a df) (aggregate_queries b df))"
    and r: "r = with_deltas m"
    by (auto simp: df_merged_def split: if_splits)
  have pa: "0 \<le> Position_A m" and pb: "0 \<le> Position_B m"
    using merged_row_fields [OF m] filled_nonneg(1) [OF assms(1)] by simp_all
  have "Pos_Delta r = spec_Pos_Delta (Position_A r) (Position_B r)"
    using pa pb
    by (simp add: r with_deltas_def pos_delta_def spec_Pos_Delta_def replace0_sentinel)
  then show ?thesis
    by (auto simp: spec_Pos_Delta_def spec_sentinel_position_def)
qed

theorem pos_delta_sentinel_rule_witness:
  "list_all (\<lambda>x. 0 \<le> Position x) sentinel_table \<and>
   df_merged 1 2 sentinel_table = Inr swap_frame \<and>
   map (\<lambda>r. (Position_A r, Position_B r, Pos_Delta r)) swap_frame =
     [(0, 5, - 95), (3, 0, 97)] \<and>
   map (\<lambda>r. spec_Pos_Delta (Position_A r) (Position_B r)) swap_frame = [- 95, 97]"
proof -
  have pos: "\<forall>x\<in>set sentinel_table. 0 \<le> Position x"
    by (simp add: sentinel_table_def)
  have "\<forall>r\<in>set swap_frame. Pos_Delta r = spec_Pos_Delta (Position_A r) (Position_B r)"
    using pos_delta_sentinel_rule [OF pos sentinel_table_frame] by blast
  then have "map (\<lambda>r. spec_Pos_Delta (Position_A r) (Position_B r)) swap_frame =
      map Pos_Delta swap_frame"
    by simp
  then show ?thesis
    using pos sentinel_table_frame by (simp add: swap_frame_def list_all_iff)
qed

lemma fsub_swap: "fsub x y = fneg (fsub y x)"
  by (cases x; cases y) simp_all

lemma merge_keys_swap:
  "sort (remdups (ks @ ks')) = sort (remdups (ks' @ ks))"
  by (rule sorted_distinct_set_unique) auto

lemma with_deltas_swap:
  "with_deltas \<lparr> Query = k, Clicks_A = cb, Impressions_A = ib, Position_A = pb,
                 Clicks_B = ca, Impressions_B = ia, Position_B = pa \<rparr> =
   spec_swap_sides (with_deltas \<lparr> Query = k, Clicks_A = ca, Impressions_A = ia, Position_A = pa,
                 Clicks_B = cb, Impressions_B = ib, Position_B = pb \<rparr>)"
  by (simp add: with_deltas_def spec_swap_sides_def pos_delta_def fsub_swap [of "ctr ca ia"])

lemma merge_swap:
  "map with_deltas (merge_outer_fillna right left) =
   map spec_swap_sides (map with_deltas (merge_outer_fillna left right))"
proof -
  have k: "sort (remdups (map agg_Top_Queries right @ map agg_Top_Queries left)) =
      sort (remdups (map agg_Top_Queries left @ map agg_Top_Queries right))"
    by (rule merge_keys_swap)
  show ?thesis
    unfolding merge_outer_fillna_def k map_map o_def
    by (rule map_cong [OF refl]) (rule with_deltas_swap)
qed

text \<open>
  C6. For two different phases, the delta table computed with the phases swapped is the
  delta table of the original order with every row swapped: the same queries in the
  same order, the aggregates and CTRs of the two sides exchanged, and
  \<^verbatim>\<open>Click_Delta\<close>, \<^verbatim>\<open>Imp_Delta\<close>, \<^verbatim>\<open>CTR_Delta\<close> and \<^verbatim>\<open>Pos_Delta\<close> negated.
\<close>

theorem compare_queries_swap:
  assumes "a \<noteq> b" and "df_merged a b df = Inr rows"
  shows "df_merged b a df = Inr (map spec_swap_sides rows)"
proof -
  from assms have rows:
    "rows = map with_deltas
       (merge_outer_fillna (aggregate_queries a df) (aggregate_queries b df))"
    by (simp add: df_merged_def)
  from assms(1) have
    "df_merged b a df = Inr (map with_deltas
       (merge_outer_fillna (aggregate_queries b df) (aggregate_queries a df)))"
    by (simp add: df_merged_def)
  also have "\<dots> = Inr (map spec_swap_sides rows)"
    unfolding rows by (rule arg_cong [where f = Inr]) (rule merge_swap)
  finally show ?thesis .
qed

theorem compare_queries_swap_witness:
  "(1 :: int) \<noteq> 2 \<and> df_merged 1 2 sentinel_table = Inr swap_frame \<and>
   df_merged 2 1 sentinel_table = Inr (map spec_swap_sides swap_frame) \<and>
   map Pos_Delta (map spec_swap_sides swap_frame) = [95, - 97] \<and>
   map Click_Delta (map spec_swap_sides swap_frame) = [- 3, 2]"
proof -
  have ne: "(1 :: int) \<noteq> 2" by simp
  show ?thesis
    using compare_queries_swap [OF ne sentinel_table_frame] sentinel_table_frame
    by (simp add: swap_frame_def spec_swap_sides_def)
qed

text \<open>
  C10. In a query table with no negative clicks or impressions, a query with no row in
  phase B has its side-B cells zero-filled, and its row of the scorecard population
  (which exists only when the query has impressions in phase A) has
  \<^verbatim>\<open>Imp_Delta\<close> = -\<^verbatim>\<open>Impressions_A\<close> \<le> 0 and \<^verbatim>\<open>CTR_Delta\<close> = -\<^verbatim>\<open>CTR_A\<close>, which does
  not exceed 3. The row matches none of the three criteria and its category is
  \<^verbatim>\<open>Others\<close>.
\<close>

theorem lost_query_is_other:
  assumes nonneg: "\<forall>x\<in>set df. 0 \<le> Clicks x \<and> 0 \<le> Impressions x"
    and absent: "q \<notin> Top_Queries ` {x \<in> set df. Phase_id x = b}"
    and row: "r \<in> set (st_analysis_df (st_merged a b df))"
    and key: "Query r = q"
  shows "q \<in> Top_Queries ` {x \<in> set df. Phase_id x = a} \<and>
    Clicks_B r = 0 \<and> Impressions_B r = 0 \<and> Position_B r = 0 \<and>
    Imp_Delta r = - Impressions_A r \<and> Imp_Delta r \<le> 0 \<and>
    CTR_Delta r = fneg (CTR_A r) \<and> \<not> fgt (CTR_Delta r) 3 \<and>
    \<not> is_true_win r \<and> \<not> is_risk r \<and> \<not> is_ineffective r \<and>
    categorize_outcome r = ''Others''"
proof -
  from row obtain m where
    m: "m \<in> set (merge_outer_fillna (aggregate_queries a df) (aggregate_queries b df))"
    and r: "r = with_st_columns m" and pop: "st_filter r"
    by (auto simp: st_analysis_df_def st_merged_def)
  have qm: "Query m = q" using key r by (simp add: with_st_columns_def)
  note f = merged_row_fields [OF m, unfolded qm]
  have zb: "Clicks_B m = 0" "Impressions_B m = 0" "Position_B m = 0"
    using f filled_absent [OF absent] by simp_all
  have ca: "0 \<le> Clicks_A m"
    using f filled_nonneg(2) [of df q a] nonneg by simp
  have ia: "0 < Impressions_A m"
    using pop zb by (simp add: r st_filter_def with_st_columns_def)
  have ctra: "CTR_A r = Fin (real_of_int (Clicks_A m) / real_of_int (Impressions_A m) * 100)"
    using ia by (simp add: r with_st_columns_def ctr_def true_divide_def)
  have ctrb: "CTR_B r = Fin 0"
    using zb by (simp add: r with_st_columns_def ctr_def true_divide_def)
  have ctrd: "CTR_Delta r = fsub (CTR_B r) (CTR_A r)"
    by (simp add: r with_st_columns_def)
  have nonpos: "0 \<le> real_of_int (Clicks_A m) / real_of_int (Impressions_A m) * 100"
    using ca ia by simp
  have nofgt: "\<not> fgt (CTR_Delta r) 3"
    using nonpos by (simp add: ctrd ctra ctrb)
  have impd: "Imp_Delta r = - Impressions_A r" "Imp_Delta r \<le> 0"
    using zb ia by (simp_all add: r with_st_columns_def)
  have present: "q \<in> Top_Queries ` {x \<in> set df. Phase_id x = a}"
  proof (rule ccontr)
    assume "q \<notin> Top_Queries ` {x \<in> set df. Phase_id x = a}"
    then have "Impressions_A m = 0"
      using f filled_absent [of q df a] by simp
    with ia show False by simp
  qed
  have others: "categorize_outcome r = ''Others''"
    using nofgt impd by (simp add: categorize_outcome_def)
  have crit: "\<not> is_true_win r" "\<not> is_risk r" "\<not> is_ineffective r"
    using nofgt impd by (simp_all add: is_true_win_def is_risk_def is_ineffective_def)
  have zbr: "Clicks_B r = 0" "Impressions_B r = 0" "Position_B r = 0"
    using zb by (simp_all add: r with_st_columns_def)
  have neg: "CTR_Delta r = fneg (CTR_A r)"
    by (simp add: ctrd ctra ctrb)
  from present zbr impd neg nofgt crit others show ?thesis by blast
qed

theorem lost_query_is_other_witness:
  "list_all (\<lambda>x. 0 \<le> Clicks x \<and> 0 \<le> Impressions x) sentinel_table \<and>
   ''y'' \<notin> Top_Queries ` {x \<in> set sentinel_table. Phase_id x = 2} \<and>
   map (\<lambda>r. (Query r, Impressions_A r, Impressions_B r, categorize_outcome r))
     (st_analysis_df (st_merged 1 2 sentinel_table)) =
     [(''x'', 0, 40, ''True Win''), (''y'', 30, 0, ''Others'')]"
proof -
  have nonneg: "\<forall>x\<in>set sentinel_table. 0 \<le> Clicks x \<and> 0 \<le> Impressions x"
    by (simp add: sentinel_table_def)
  have absent: "''y'' \<notin> Top_Queries ` {x \<in> set sentinel_table. Phase_id x = 2}"
    by (auto simp: sentinel_table_def)
  have frame: "map (\<lambda>r. (Query r, Impressions_A r, Impressions_B r, Pos_Delta r, Imp_Delta r))
     (st_analysis_df (st_merged 1 2 sentinel_table)) =
     [(''x'', 0, 40, - 95, 40), (''y'', 30, 0, 97, - 30)]"
    by (simp add: sentinel_table_def st_defs pipeline_defs)
  have "\<forall>r\<in>set (st_analysis_df (st_merged 1 2 sentinel_table)).
          Query r = ''y'' \<longrightarrow> categorize_outcome r = ''Others''"
    using lost_query_is_other [OF nonneg absent] by blast
  moreover have "\<forall>r\<in>set (st_analysis_df (st_merged 1 2 sentinel_table)).
          Query r = ''x'' \<longrightarrow> categorize_outcome r = ''True Win''"
    using frame by (auto simp: categorize_outcome_def)
  ultimately show ?thesis
    using nonneg absent frame by (auto simp: list_all_iff)
qed

section \<open>Ratios and zero denominators\<close>

lemma ctr_zero_denominator:
  "ctr c 0 = (if c = 0 then Fin 0 else if 0 < c then PInf else NInf)"
  by (simp add: ctr_def true_divide_def)

lemma ctr_positive_denominator:
  "0 < i \<Longrightarrow> ctr c i = Fin (real_of_int c / real_of_int i * 100)"
  by (simp add: ctr_def true_divide_def)

lemma phase_ctr_finite: "is_finite (m_CTR (calculate_phase_metrics p df))"
  by (simp add: calculate_phase_metrics_def Let_def true_divide_def)

lemma phase_ctr_zero_denominator:
  "m_Impressions (calculate_phase_metrics p df) = 0 \<Longrightarrow>
   m_CTR (calculate_phase_metrics p df) = Fin 0"
  by (simp add: calculate_phase_metrics_def Let_def)

text \<open>
  C4 at a failing input. The query of \<open>zero_impressions_table\<close> has five clicks and no
  impression in phase 1 (clicks and impressions are not negative). Its CTR of side A is
  \<^verbatim>\<open>5 / 0 * 100\<close>, which is infinite, and \<^verbatim>\<open>fillna(0)\<close> replaces NaN cells only: the
  cell stays infinite in the delta table and in the scorecard population, and the CTR
  delta is infinite as well.
\<close>

theorem ctr_zero_impressions_infinite:
  "list_all (\<lambda>x. 0 \<le> Clicks x \<and> 0 \<le> Impressions x) zero_impressions_table \<and>
   map_sum id (map (\<lambda>r. (Clicks_A r, Impressions_A r, CTR_A r, CTR_Delta r)))
     (df_merged 1 2 zero_impressions_table) = Inr [(5, 0, PInf, NInf)] \<and>
   map (\<lambda>r. (Clicks_A r, Impressions_A r, CTR_A r, CTR_Delta r))
     (st_analysis_df (st_merged 1 2 zero_impressions_table)) = [(5, 0, PInf, NInf)] \<and>
   \<not> is_finite PInf \<and> \<not> is_finite NInf \<and> PInf \<noteq> Fin 0"
  by (simp add: zero_impressions_table_def delta_defs st_defs pipeline_defs)

end
